theory Spec2Isabelle
  imports Main
begin

section \<open>Python strings\<close>

text \<open>
  A Python \<open>str\<close> is a sequence of Unicode code points, so a string is a list of
  code points here, and \<open>length\<close> counts what Python's \<open>len\<close> counts. \<open>str\<close>
  turns an ASCII literal into such a string.
\<close>

type_synonym ustr = "nat list"

definition str :: "string \<Rightarrow> ustr" where
  "str s = map of_char s"

text \<open>
  \<open>str.isspace\<close> for one code point; \<open>str.strip()\<close> and the regular expression
  class \<open>\s\<close> (on \<open>str\<close> patterns) use the same set.
\<close>

definition isspace :: "nat \<Rightarrow> bool" where
  "isspace c \<longleftrightarrow>
     (0x09 \<le> c \<and> c \<le> 0x0D) \<or> (0x1C \<le> c \<and> c \<le> 0x20) \<or> c = 0x85 \<or> c = 0xA0 \<or>
     c = 0x1680 \<or> (0x2000 \<le> c \<and> c \<le> 0x200A) \<or> c = 0x2028 \<or> c = 0x2029 \<or>
     c = 0x202F \<or> c = 0x205F \<or> c = 0x3000"

text \<open>The line boundaries of \<open>str.splitlines\<close>; \<open>\r\n\<close> counts as one boundary.\<close>

definition is_linebreak :: "nat \<Rightarrow> bool" where
  "is_linebreak c \<longleftrightarrow>
     (0x0A \<le> c \<and> c \<le> 0x0D) \<or> (0x1C \<le> c \<and> c \<le> 0x1E) \<or> c = 0x85 \<or>
     c = 0x2028 \<or> c = 0x2029"

text \<open>\<open>s.strip()\<close> and \<open>s.strip(chars)\<close>.\<close>

definition strip :: "ustr \<Rightarrow> ustr" where
  "strip s = rev (dropWhile isspace (rev (dropWhile isspace s)))"

definition strip_chars :: "ustr \<Rightarrow> ustr \<Rightarrow> ustr" where
  "strip_chars chars s =
     rev (dropWhile (\<lambda>c. c \<in> set chars) (rev (dropWhile (\<lambda>c. c \<in> set chars) s)))"

text \<open>
  \<open>s.splitlines()\<close>: the lines without their terminators; a terminator at the very
  end opens no further line. The first argument is the line read so far.
\<close>

fun splitlines_from :: "ustr \<Rightarrow> ustr \<Rightarrow> ustr list" where
  "splitlines_from cur [] = (if cur = [] then [] else [cur])"
| "splitlines_from cur [c] = (if is_linebreak c then [cur] else [cur @ [c]])"
| "splitlines_from cur (c # d # cs) =
     (if c = 0x0D \<and> d = 0x0A then cur # splitlines_from [] cs
      else if is_linebreak c then cur # splitlines_from [] (d # cs)
      else splitlines_from (cur @ [c]) (d # cs))"

definition splitlines :: "ustr \<Rightarrow> ustr list" where
  "splitlines s = splitlines_from [] s"

text \<open>\<open>s.split("\n\n")\<close>: the separator is searched from left to right, without overlap.\<close>

fun split_blank_from :: "ustr \<Rightarrow> ustr \<Rightarrow> ustr list" where
  "split_blank_from cur [] = [cur]"
| "split_blank_from cur [c] = [cur @ [c]]"
| "split_blank_from cur (c # d # cs) =
     (if c = 0x0A \<and> d = 0x0A then cur # split_blank_from [] cs
      else split_blank_from (cur @ [c]) (d # cs))"

definition split_blank :: "ustr \<Rightarrow> ustr list" where
  "split_blank s = split_blank_from [] s"

text \<open>
  \<open>re.split\<close> with a pattern that matches exactly one code point of a class: every
  occurrence separates, adjacent occurrences give empty pieces.
\<close>

fun split_on_from :: "(nat \<Rightarrow> bool) \<Rightarrow> ustr \<Rightarrow> ustr \<Rightarrow> ustr list" where
  "split_on_from p cur [] = [cur]"
| "split_on_from p cur (c # cs) =
     (if p c then cur # split_on_from p [] cs else split_on_from p (cur @ [c]) cs)"

text \<open>\<open>str(n)\<close> for a natural number: its decimal digits.\<close>

fun str_of_nat :: "nat \<Rightarrow> ustr" where
  "str_of_nat n = (if n < 10 then [0x30 + n] else str_of_nat (n div 10) @ [0x30 + n mod 10])"

declare str_of_nat.simps [simp del]

section \<open>The outline\<close>

text \<open>
  The dictionaries the heuristic builds have fixed keys:
  \<^verbatim>\<open>{"title": ..., "bullets": [...], "notes": ""}\<close> for a slide and
  \<^verbatim>\<open>{"title": "", "slides": [...]}\<close> for the deck.
\<close>

record slide =
  title :: ustr
  bullets :: "ustr list"
  slide_notes :: ustr

record deck =
  deck_title :: ustr
  slides :: "slide list"

section \<open>The heuristic structurer (\<open>llm_router._heuristic_split\<close>)\<close>

text \<open>
  \<^verbatim>\<open>re.match(r"^\s*#{1,2}\s+.+", ln)\<close>. After the leading whitespace come one or two
  \<open>#\<close> (a third one cannot be matched by \<open>\s+\<close>), then \<open>\s+\<close> takes between one
  code point and the whole run of whitespace that follows, and \<open>.+\<close> needs one more
  code point that is not a newline right after what \<open>\s+\<close> took. With a run of \<open>w\<close>
  whitespace code points, the candidates for that code point are the positions
  \<open>1 .. w\<close> of the rest of the line.
\<close>

definition is_heading :: "ustr \<Rightarrow> bool" where
  "is_heading ln =
     (let r = dropWhile isspace ln;
          k = length (takeWhile (\<lambda>c. c = 0x23) r);
          t = drop k r;
          w = length (takeWhile isspace t)
      in (k = 1 \<or> k = 2) \<and> list_ex (\<lambda>c. c \<noteq> 0x0A) (take w (tl t)))"

text \<open>
  \<^verbatim>\<open>re.sub(r"^\s*#{1,2}\s+", "", ln)\<close>: the pattern is anchored at the start, so at
  most one match is removed; it is greedy, so the whole run of whitespace after the
  marker goes. A line the pattern does not match is left as it is.
\<close>

definition heading_sub :: "ustr \<Rightarrow> ustr" where
  "heading_sub ln =
     (let r = dropWhile isspace ln;
          k = length (takeWhile (\<lambda>c. c = 0x23) r);
          t = drop k r
      in if (k = 1 \<or> k = 2) \<and> takeWhile isspace t \<noteq> [] then dropWhile isspace t else ln)"

text \<open>
  The variables the nested function \<open>flush_slide\<close> shares with the scan:
  \<open>current_title\<close> is \<open>None\<close> or a string.
\<close>

record scan =
  scan_slides :: "slide list"
  current_title :: "ustr option"
  current_lines :: "ustr list"

text \<open>
  Python's truth value of \<open>current_title\<close>: \<open>None\<close> and \<open>""\<close> are false; and
  \<open>current_title or d\<close>, which is \<open>d\<close> where \<open>current_title\<close> is false.
\<close>

fun title_truthy :: "ustr option \<Rightarrow> bool" where
  "title_truthy None = False"
| "title_truthy (Some t) = (t \<noteq> [])"

fun title_or :: "ustr option \<Rightarrow> ustr \<Rightarrow> ustr" where
  "title_or None d = d"
| "title_or (Some t) d = (if t \<noteq> [] then t else d)"

definition flush_slide :: "scan \<Rightarrow> scan" where
  "flush_slide st =
     (let out =
        (if title_truthy (current_title st) \<or> current_lines st \<noteq> [] then
           (let bs = map (\<lambda>ln. strip (strip_chars (str ''-* '') ln))
                       (filter (\<lambda>ln. strip ln \<noteq> []) (current_lines st));
                bs' = (if length bs > 8 then take 8 bs else bs)
            in scan_slides st @
               [\<lparr>title = title_or (current_title st) (str ''Slide''),
                 bullets = take 8 bs', slide_notes = []\<rparr>])
         else scan_slides st)
      in \<lparr>scan_slides = out, current_title = None, current_lines = []\<rparr>)"

text \<open>The body of the loop over the lines.\<close>

definition scan_line :: "scan \<Rightarrow> ustr \<Rightarrow> scan" where
  "scan_line st ln =
     (if is_heading ln then (flush_slide st)\<lparr>current_title := Some (strip (heading_sub ln))\<rparr>
      else if strip ln \<noteq> [] then st\<lparr>current_lines := current_lines st @ [strip ln]\<rparr>
      else st)"

definition heading_scan :: "ustr \<Rightarrow> slide list" where
  "heading_scan text =
     scan_slides (flush_slide (foldl scan_line
        \<lparr>scan_slides = [], current_title = None, current_lines = []\<rparr>
        (splitlines (strip text))))"

text \<open>
  The paragraph branch. The class of the pattern
  \<^verbatim>\<open>[...]|\n\<close> holds, as the file is decoded, U+00E2, U+20AC and U+00A2, the
  escaped hyphen and the escape \<^verbatim>\<open>\u2022\<close>; the alternative adds the newline.
\<close>

definition is_bullet_sep :: "nat \<Rightarrow> bool" where
  "is_bullet_sep c \<longleftrightarrow>
     c = 0xE2 \<or> c = 0x20AC \<or> c = 0xA2 \<or> c = 0x2D \<or> c = 0x2022 \<or> c = 0x0A"

definition section_slide :: "nat \<times> ustr \<Rightarrow> slide" where
  "section_slide ip =
     (let bs = filter (\<lambda>s. s \<noteq> []) (map strip (split_on_from is_bullet_sep [] (snd ip)))
      in \<lparr>title = str ''Section '' @ str_of_nat (fst ip + 1), bullets = take 6 bs, slide_notes = []\<rparr>)"

definition paragraph_slides :: "ustr \<Rightarrow> slide list" where
  "paragraph_slides text =
     (let paras = filter (\<lambda>p. p \<noteq> []) (map strip (split_blank text))
      in map section_slide (enumerate 0 paras))"

text \<open>\<open>_heuristic_split\<close>; \<open>guidance\<close> is a parameter the body never reads.\<close>

definition heuristic_split :: "ustr \<Rightarrow> ustr option \<Rightarrow> deck" where
  "heuristic_split text guidance =
     (let found = heading_scan text;
          all_slides = (if found = [] then found @ paragraph_slides text else found)
      in \<lparr>deck_title = [], slides = take 20 all_slides\<rparr>)"

section \<open>Python values\<close>

text \<open>
  What \<open>json.loads\<close> returns and what the router hands on is dynamically typed: any
  JSON value. A dictionary is an association list in insertion order with distinct
  keys; a lookup takes the first binding of the key. \<open>PInt\<close> stands for a JSON
  number (a number with a fraction behaves, in every operation below, as an integer of
  the same truth value).
\<close>

datatype pv = PNone | PBool bool | PInt int | PStr ustr | PList "pv list" | PDict "(ustr \<times> pv) list"

text \<open>The exceptions met below; every one of them is a subclass of \<open>Exception\<close>.\<close>

datatype exn =
  AttributeError | TypeError | IndexError | KeyError | JSONDecodeError
  | RequestException | HTTPError | PptxError

text \<open>The truth value Python gives a value in \<open>if v\<close> and \<open>v or w\<close>.\<close>

fun truthy :: "pv \<Rightarrow> bool" where
  "truthy PNone = False"
| "truthy (PBool b) = b"
| "truthy (PInt i) = (i \<noteq> 0)"
| "truthy (PStr s) = (s \<noteq> [])"
| "truthy (PList xs) = (xs \<noteq> [])"
| "truthy (PDict kvs) = (kvs \<noteq> [])"

text \<open>\<open>d.get(key, default)\<close>: only a dictionary has the method.\<close>

fun py_get :: "pv \<Rightarrow> ustr \<Rightarrow> pv \<Rightarrow> exn + pv" where
  "py_get (PDict kvs) key dflt = Inr (case map_of kvs key of Some v \<Rightarrow> v | None \<Rightarrow> dflt)"
| "py_get _ key dflt = Inl AttributeError"

text \<open>
  What \<open>for x in v\<close> runs through: the items of a list, the one-character strings of
  a string, the keys of a dictionary; nothing else is iterable.
\<close>

fun py_iter :: "pv \<Rightarrow> exn + pv list" where
  "py_iter (PList xs) = Inr xs"
| "py_iter (PStr s) = Inr (map (\<lambda>c. PStr [c]) s)"
| "py_iter (PDict kvs) = Inr (map (\<lambda>kv. PStr (fst kv)) kvs)"
| "py_iter _ = Inl TypeError"

text \<open>\<open>d[key] = v\<close> with a string key: only a dictionary accepts it.\<close>

fun dict_set :: "ustr \<Rightarrow> pv \<Rightarrow> (ustr \<times> pv) list \<Rightarrow> (ustr \<times> pv) list" where
  "dict_set key v [] = [(key, v)]"
| "dict_set key v (kv # kvs) = (if fst kv = key then (key, v) # kvs else kv # dict_set key v kvs)"

fun py_setitem :: "pv \<Rightarrow> ustr \<Rightarrow> pv \<Rightarrow> exn + pv" where
  "py_setitem (PDict kvs) key v = Inr (PDict (dict_set key v kvs))"
| "py_setitem _ key v = Inl TypeError"

text \<open>\<open>xs[i]\<close> on a sequence: a negative index counts from the end.\<close>

definition py_index :: "'a list \<Rightarrow> int \<Rightarrow> exn + 'a" where
  "py_index xs i =
     (if 0 \<le> i \<and> i < int (length xs) then Inr (xs ! nat i)
      else if i < 0 \<and> - int (length xs) \<le> i then Inr (xs ! nat (int (length xs) + i))
      else Inl IndexError)"

text \<open>
  \<open>str.lower\<close>, on the ASCII letters. Outside ASCII only U+212A lowers to an ASCII
  letter (\<open>k\<close>) and U+0130 to \<open>i\<close> followed by U+0307; neither changes whether the
  result is one of the words it is compared with below, which hold no \<open>k\<close>.
\<close>

definition lower :: "ustr \<Rightarrow> ustr" where
  "lower s = map (\<lambda>c. if 0x41 \<le> c \<and> c \<le> 0x5A then c + 0x20 else c) s"

text \<open>The heuristic's result as the dictionaries it is in Python.\<close>

definition slide_pv :: "slide \<Rightarrow> pv" where
  "slide_pv s =
     PDict [(str ''title'', PStr (title s)),
            (str ''bullets'', PList (map PStr (bullets s))),
            (str ''notes'', PStr (slide_notes s))]"

definition deck_pv :: "deck \<Rightarrow> pv" where
  "deck_pv d =
     PDict [(str ''title'', PStr (deck_title d)),
            (str ''slides'', PList (map slide_pv (slides d)))]"

section \<open>The provider structurers and the router (\<open>llm_router\<close>)\<close>

text \<open>
  The world outside the program. \<open>exchange w provider api_key text guidance\<close> is the
  outcome of the HTTP request and of unwrapping the provider's envelope, up to the line
  that parses: the text to parse, or the exception raised on the way
  (\<open>requests.post\<close>, \<open>raise_for_status\<close>, \<open>resp.json()\<close>, a missing envelope field, a
  content that is no string). \<open>json_loads\<close> is \<open>json.loads\<close>.
\<close>

record world =
  exchange :: "ustr \<Rightarrow> ustr \<Rightarrow> ustr \<Rightarrow> ustr option \<Rightarrow> exn + ustr"
  json_loads :: "ustr \<Rightarrow> exn + pv"

text \<open>
  \<^verbatim>\<open>re.search(r"\{.*\}", content, re.S)\<close>: with \<open>re.S\<close> the dot matches every code
  point, so the match runs from the first \<open>{\<close> to the last \<open>}\<close> after it, and there
  is none when no \<open>}\<close> follows the first \<open>{\<close>.
\<close>

definition brace_span :: "ustr \<Rightarrow> ustr option" where
  "brace_span content =
     (case dropWhile (\<lambda>c. c \<noteq> 0x7B) content of
        [] \<Rightarrow> None
      | b # rest \<Rightarrow>
          (case rev (dropWhile (\<lambda>c. c \<noteq> 0x7D) (rev rest)) of
             [] \<Rightarrow> None
           | inner \<Rightarrow> Some (b # inner)))"

text \<open>
  \<open>_call_openai\<close>: when parsing the content raises, the span is parsed instead; with
  no span the bare \<open>raise\<close> raises the first exception again.
\<close>

definition call_openai :: "world \<Rightarrow> ustr \<Rightarrow> ustr \<Rightarrow> ustr option \<Rightarrow> exn + pv" where
  "call_openai w api_key text guidance =
     (case exchange w (str ''openai'') api_key text guidance of
        Inl e \<Rightarrow> Inl e
      | Inr content \<Rightarrow>
          (case json_loads w content of
             Inr v \<Rightarrow> Inr v
           | Inl e \<Rightarrow>
               (case brace_span content of
                  Some m \<Rightarrow> json_loads w m
                | None \<Rightarrow> Inl e)))"

text \<open>\<open>_call_anthropic\<close> and \<open>_call_gemini\<close> end in \<open>return json.loads(text_out)\<close>.\<close>

definition call_anthropic :: "world \<Rightarrow> ustr \<Rightarrow> ustr \<Rightarrow> ustr option \<Rightarrow> exn + pv" where
  "call_anthropic w api_key text guidance =
     (case exchange w (str ''anthropic'') api_key text guidance of
        Inl e \<Rightarrow> Inl e
      | Inr text_out \<Rightarrow> json_loads w text_out)"

definition call_gemini :: "world \<Rightarrow> ustr \<Rightarrow> ustr \<Rightarrow> ustr option \<Rightarrow> exn + pv" where
  "call_gemini w api_key text guidance =
     (case exchange w (str ''gemini'') api_key text guidance of
        Inl e \<Rightarrow> Inl e
      | Inr text_out \<Rightarrow> json_loads w text_out)"

text \<open>
  The body of the \<open>try\<close> in \<open>structure_slides\<close>: three \<open>if\<close>s in a row, each
  returning what its provider returns; \<open>Inr None\<close> is falling out of the last one.
\<close>

definition provider_attempt ::
  "world \<Rightarrow> ustr \<Rightarrow> ustr \<Rightarrow> ustr \<Rightarrow> ustr option \<Rightarrow> exn + pv option" where
  "provider_attempt w provider api_key text guidance =
     (if provider = str ''openai'' then map_sum id Some (call_openai w api_key text guidance)
      else if provider = str ''anthropic'' then map_sum id Some (call_anthropic w api_key text guidance)
      else if provider = str ''gemini'' then map_sum id Some (call_gemini w api_key text guidance)
      else Inr None)"

text \<open>
  \<open>structure_slides\<close>. \<open>provider\<close> and \<open>api_key\<close> may be \<open>None\<close>. The \<open>except\<close>
  clause passes, so an exception of the attempt leads to the last line like no attempt.
\<close>

definition structure_slides ::
  "world \<Rightarrow> ustr option \<Rightarrow> ustr option \<Rightarrow> ustr \<Rightarrow> ustr option \<Rightarrow> exn + pv" where
  "structure_slides w provider api_key text guidance =
     (let provider = strip (lower (case provider of None \<Rightarrow> [] | Some p \<Rightarrow> p));
          fallback = Inr (deck_pv (heuristic_split text guidance))
      in case api_key of
           None \<Rightarrow> fallback
         | Some key \<Rightarrow>
             if key \<noteq> [] \<and> provider \<in> set [str ''openai'', str ''anthropic'', str ''gemini''] then
               (case provider_attempt w provider key text guidance of
                  Inr (Some v) \<Rightarrow> Inr v
                | Inr None \<Rightarrow> fallback
                | Inl e \<Rightarrow> fallback)
             else fallback)"

section \<open>The template renderer (\<open>pptx_builder\<close>)\<close>

text \<open>
  The presentation library is not part of the program: what a parsed template offers,
  and which of the library's calls return, are parameters. A shape has a type and, for a
  picture, an image whose bytes may or may not be readable. A layout says what a slide
  made from it has: a title placeholder or none, the \<open>placeholder_format.type\<close> of
  each placeholder (\<open>None\<close> where the attribute is missing), and whether the slide's
  notes frame can be reached.
\<close>

type_synonym blob = "nat list"

record shape =
  shape_type :: int
  image_blob :: "blob option"

record layout =
  has_title :: bool
  placeholder_types :: "int option list"
  notes_ok :: bool

text \<open>
  \<open>text_ok v\<close>: assigning \<open>v\<close> to a \<open>.text\<close> property returns (it raises otherwise);
  \<open>picture_ok b\<close>: \<open>add_picture\<close> returns for the image \<open>b\<close>; \<open>save_ok\<close>:
  \<open>prs.save\<close> returns. \<open>add_slide\<close>, the walk over the placeholders and
  \<open>tf.clear()\<close> are taken to return.
\<close>

record pptx =
  template_slides :: "shape list list"
  slide_layouts :: "layout list"
  text_ok :: "pv \<Rightarrow> bool"
  picture_ok :: "blob \<Rightarrow> bool"
  save_ok :: bool

text \<open>
  A slide the renderer has appended, as far as the program decides it: the layout index
  it was made with, the text put into the title placeholder and the paragraphs put into
  the body placeholder (\<open>None\<close>: nothing written), the picture placed and the speaker
  notes written (\<open>None\<close>: the notes frame is left empty).
\<close>

record rslide =
  r_layout :: int
  r_title :: "pv option"
  r_body :: "pv list option"
  r_image :: "blob option"
  r_notes :: "pv option"

definition collect_template_images :: "pptx \<Rightarrow> blob list" where
  "collect_template_images prs =
     concat (map (\<lambda>shapes.
        concat (map (\<lambda>sh. if shape_type sh = 13
                           then (case image_blob sh of Some b \<Rightarrow> [b] | None \<Rightarrow> [])
                           else []) shapes))
        (template_slides prs))"

text \<open>
  \<open>add_bulleted_slide\<close>. The layout lookup and the writes into the body placeholder
  stand outside every \<open>try\<close>; the title, the picture and the notes stand inside one.
  \<open>out\<close> is the list of slides appended so far.
\<close>

definition add_bulleted_slide ::
  "pptx \<Rightarrow> rslide list \<Rightarrow> int \<Rightarrow> pv \<Rightarrow> pv list \<Rightarrow> pv \<Rightarrow> blob list \<Rightarrow> int
     \<Rightarrow> exn + (rslide list \<times> int)" where
  "add_bulleted_slide prs out layout_idx title_v bullets_v notes_v image_blobs image_cycle_idx =
     (case py_index (slide_layouts prs) layout_idx of
        Inl e \<Rightarrow> Inl e
      | Inr slide_layout \<Rightarrow>
          (let title_text = (if truthy title_v then title_v else PStr []);
               titled = (if has_title slide_layout \<and> text_ok prs title_text
                         then Some title_text else None);
               content_placeholder = find (\<lambda>t. t = Some 2) (placeholder_types slide_layout)
           in if content_placeholder \<noteq> None \<and> \<not> list_all (text_ok prs) bullets_v
              then Inl PptxError
              else
                (let body = (if content_placeholder \<noteq> None then Some bullets_v else None);
                     picture =
                       (if image_blobs \<noteq> [] then
                          (let blob = image_blobs ! nat (image_cycle_idx mod int (length image_blobs))
                           in if picture_ok prs blob then Some blob else None)
                        else None);
                     noted = (if truthy notes_v \<and> notes_ok slide_layout \<and> text_ok prs notes_v
                              then Some notes_v else None)
                 in Inr (out @ [\<lparr>r_layout = layout_idx, r_title = titled, r_body = body,
                                  r_image = picture, r_notes = noted\<rparr>],
                         image_cycle_idx + 1))))"

text \<open>
  What the loop of \<open>build_presentation\<close> reads from one entry of \<open>slides\<close>:
  \<^verbatim>\<open>s.get("title", "")\<close>, \<^verbatim>\<open>[b for b in s.get("bullets", []) if b]\<close> and
  \<^verbatim>\<open>s.get("notes", "")\<close>.
\<close>

definition slide_fields :: "pv \<Rightarrow> exn + (pv \<times> pv list \<times> pv)" where
  "slide_fields s =
     (case py_get s (str ''title'') (PStr []) of
        Inl e \<Rightarrow> Inl e
      | Inr title_v \<Rightarrow>
          (case py_get s (str ''bullets'') (PList []) of
             Inl e \<Rightarrow> Inl e
           | Inr bs \<Rightarrow>
               (case py_iter bs of
                  Inl e \<Rightarrow> Inl e
                | Inr items \<Rightarrow>
                    (case py_get s (str ''notes'') (PStr []) of
                       Inl e \<Rightarrow> Inl e
                     | Inr notes_v \<Rightarrow> Inr (title_v, filter truthy items, notes_v)))))"

text \<open>The loop \<open>for s in slides\<close>; the state is the slides appended and \<open>image_idx\<close>.\<close>

fun add_slides ::
  "pptx \<Rightarrow> int \<Rightarrow> blob list \<Rightarrow> pv list \<Rightarrow> rslide list \<times> int \<Rightarrow> exn + (rslide list \<times> int)" where
  "add_slides prs default_layout_idx template_images [] st = Inr st"
| "add_slides prs default_layout_idx template_images (s # ss) st =
     (case slide_fields s of
        Inl e \<Rightarrow> Inl e
      | Inr (title_v, bullets_v, notes_v) \<Rightarrow>
          (case add_bulleted_slide prs (fst st) default_layout_idx title_v bullets_v notes_v
                  template_images (snd st) of
             Inl e \<Rightarrow> Inl e
           | Inr st' \<Rightarrow> add_slides prs default_layout_idx template_images ss st'))"

text \<open>
  The title slide: made when \<open>deck.get("title")\<close> is true and the template has a first
  layout; everything about it is inside a \<open>try\<close>.
\<close>

definition title_slide :: "pptx \<Rightarrow> pv \<Rightarrow> rslide list" where
  "title_slide prs deck_title_v =
     (if truthy deck_title_v then
        (case slide_layouts prs of
           [] \<Rightarrow> []
         | title_slide_layout # _ \<Rightarrow>
             [\<lparr>r_layout = 0,
               r_title = (if has_title title_slide_layout \<and> text_ok prs deck_title_v
                          then Some deck_title_v else None),
               r_body = None, r_image = None, r_notes = None\<rparr>])
      else [])"

definition default_layout_idx :: "pptx \<Rightarrow> int \<Rightarrow> int" where
  "default_layout_idx prs prefer_layout_idx =
     (if prefer_layout_idx < int (length (slide_layouts prs)) then prefer_layout_idx else 1)"

text \<open>
  \<open>build_presentation\<close>. \<open>Presentation\<close> is the library's parser, a parameter. The
  result is the list of slides appended to the template's own, which is what
  \<open>prs.save\<close> then writes out.
\<close>

definition build_presentation ::
  "(blob \<Rightarrow> exn + pptx) \<Rightarrow> blob \<Rightarrow> pv \<Rightarrow> int \<Rightarrow> exn + rslide list" where
  "build_presentation Presentation template_bytes deck prefer_layout_idx =
     (case Presentation template_bytes of
        Inl e \<Rightarrow> Inl e
      | Inr prs \<Rightarrow>
          (case py_get deck (str ''title'') PNone of
             Inl e \<Rightarrow> Inl e
           | Inr deck_title_v \<Rightarrow>
               (case py_get deck (str ''slides'') (PList []) of
                  Inl e \<Rightarrow> Inl e
                | Inr slides_v \<Rightarrow>
                    (case py_iter slides_v of
                       Inl e \<Rightarrow> Inl e
                     | Inr items \<Rightarrow>
                         (case add_slides prs (default_layout_idx prs prefer_layout_idx)
                                 (collect_template_images prs) items
                                 (title_slide prs deck_title_v, 0) of
                            Inl e \<Rightarrow> Inl e
                          | Inr st \<Rightarrow> if save_ok prs then Inr (fst st) else Inl PptxError)))))"

section \<open>The request handler (\<open>main.generate_pptx\<close>)\<close>

text \<open>
  \<^verbatim>\<open>for s in deck.get("slides", []): s["notes"] = ""\<close>. The dictionaries are changed
  in place; the deck that goes on holds the changed ones.
\<close>

fun clear_each :: "pv list \<Rightarrow> exn + pv list" where
  "clear_each [] = Inr []"
| "clear_each (s # ss) =
     (case py_setitem s (str ''notes'') (PStr []) of
        Inl e \<Rightarrow> Inl e
      | Inr s' \<Rightarrow> (case clear_each ss of Inl e \<Rightarrow> Inl e | Inr ss' \<Rightarrow> Inr (s' # ss')))"

text \<open>
  After the loop the deck holds the changed items where it holds the list that was
  walked; a default \<open>[]\<close>, or a string or dictionary under \<open>"slides"\<close>, has had
  nothing changed in it when the loop got through.
\<close>

fun with_slides :: "pv \<Rightarrow> pv \<Rightarrow> pv list \<Rightarrow> pv" where
  "with_slides (PDict kvs) (PList old) items' =
     (if map_of kvs (str ''slides'') = None then PDict kvs
      else PDict (dict_set (str ''slides'') (PList items') kvs))"
| "with_slides deck slides_v items' = deck"

definition clear_notes :: "pv \<Rightarrow> exn + pv" where
  "clear_notes deck =
     (case py_get deck (str ''slides'') (PList []) of
        Inl e \<Rightarrow> Inl e
      | Inr slides_v \<Rightarrow>
          (case py_iter slides_v of
             Inl e \<Rightarrow> Inl e
           | Inr items \<Rightarrow>
               (case clear_each items of
                  Inl e \<Rightarrow> Inl e
                | Inr items' \<Rightarrow> Inr (with_slides deck slides_v items'))))"

text \<open>
  What the handler answers: an \<open>HTTPException\<close> with its status, an exception nobody
  catches, or the presentation. \<open>provider or ""\<close> and \<open>api_key or None\<close> are the
  arguments of the router; \<open>not speaker_notes\<close> holds for \<open>None\<close> and \<open>False\<close>.
  Writing the bytes to a temporary file and sending it come after and are left out.
\<close>

datatype failure = HTTPException nat | Uncaught exn

definition endswith :: "ustr \<Rightarrow> ustr \<Rightarrow> bool" where
  "endswith s suffix \<longleftrightarrow> length suffix \<le> length s \<and> drop (length s - length suffix) s = suffix"

definition generate_pptx ::
  "world \<Rightarrow> (blob \<Rightarrow> exn + pptx) \<Rightarrow> ustr \<Rightarrow> blob \<Rightarrow> ustr \<Rightarrow> ustr option \<Rightarrow> ustr option
     \<Rightarrow> ustr option \<Rightarrow> bool option \<Rightarrow> failure + rslide list" where
  "generate_pptx w Presentation filename template_bytes text guidance provider api_key speaker_notes =
     (if \<not> (endswith (lower filename) (str ''.pptx'') \<or> endswith (lower filename) (str ''.potx''))
      then Inl (HTTPException 400)
      else if length template_bytes > 40 * 1024 * 1024 then Inl (HTTPException 400)
      else
        (case structure_slides w
                (Some (case provider of None \<Rightarrow> [] | Some p \<Rightarrow> p))
                (case api_key of None \<Rightarrow> None | Some k \<Rightarrow> if k = [] then None else Some k)
                text guidance of
           Inl e \<Rightarrow> Inl (Uncaught e)
         | Inr deck \<Rightarrow>
             (case (if speaker_notes = Some True then Inr deck else clear_notes deck) of
                Inl e \<Rightarrow> Inl (Uncaught e)
              | Inr deck' \<Rightarrow>
                  (case build_presentation Presentation template_bytes deck' 1 of
                     Inl e \<Rightarrow> Inl (HTTPException 500)
                   | Inr out_slides \<Rightarrow> Inr out_slides))))"

section \<open>The outline shape of the specification\<close>

text \<open>
  The specification's words for the shape every structuring path must deliver:
  \<^verbatim>\<open>{"title": string?, "slides": [{"title": string, "bullets": [string], "notes": string?}]}\<close>.
  This predicate follows the specification, not the code, which never checks it.
\<close>

fun is_str :: "pv \<Rightarrow> bool" where
  "is_str (PStr s) = True"
| "is_str v = False"

fun optional_str :: "pv option \<Rightarrow> bool" where
  "optional_str None = True"
| "optional_str (Some v) = is_str v"

fun str_list :: "pv option \<Rightarrow> bool" where
  "str_list (Some (PList xs)) = list_all is_str xs"
| "str_list v = False"

fun slide_shaped :: "pv \<Rightarrow> bool" where
  "slide_shaped (PDict kvs) =
     (str_list (map_of kvs (str ''bullets'')) \<and> optional_str (map_of kvs (str ''notes''))
      \<and> map_of kvs (str ''title'') \<noteq> None \<and> optional_str (map_of kvs (str ''title'')))"
| "slide_shaped v = False"

fun slide_list :: "pv option \<Rightarrow> bool" where
  "slide_list (Some (PList xs)) = list_all slide_shaped xs"
| "slide_list v = False"

fun outline_shaped :: "pv \<Rightarrow> bool" where
  "outline_shaped (PDict kvs) =
     (optional_str (map_of kvs (str ''title'')) \<and> slide_list (map_of kvs (str ''slides'')))"
| "outline_shaped v = False"

section \<open>Where a slide's title comes from\<close>



section \<open>Worlds and templates for the examples\<close>

text \<open>
  \<open>json.loads\<close> on the texts the examples hand it: three JSON documents, and texts
  that are no JSON.
\<close>

definition known_json :: "ustr \<Rightarrow> exn + pv" where
  \<open>known_json s =
     (if s = str ''[]'' then Inr (PList [])
      else if s = str ''{}'' then Inr (PDict [])
      else if s = str ''{"slides":[{"title":"T","bullets":["b"],"notes":"N"}]}'' then
        Inr (PDict [(str ''slides'',
               PList [PDict [(str ''title'', PStr (str ''T'')),
                             (str ''bullets'', PList [PStr (str ''b'')]),
                             (str ''notes'', PStr (str ''N''))]])])
      else Inl JSONDecodeError)\<close>

text \<open>A world in which every provider answers with the given text.\<close>

definition answering :: "ustr \<Rightarrow> world" where
  "answering content = \<lparr>exchange = (\<lambda>provider api_key text guidance. Inr content),
                         json_loads = known_json\<rparr>"

text \<open>A world in which every request ends in a status error.\<close>

definition failing_world :: world where
  "failing_world = \<lparr>exchange = (\<lambda>provider api_key text guidance. Inl HTTPError),
                     json_loads = known_json\<rparr>"

text \<open>
  A template with a title layout and a title-and-body layout, and one slide holding two
  pictures around a text box; its text properties take strings only.
\<close>

definition title_layout :: layout where
  "title_layout = \<lparr>has_title = True, placeholder_types = [Some 3, Some 4], notes_ok = True\<rparr>"

definition content_layout :: layout where
  "content_layout = \<lparr>has_title = True, placeholder_types = [Some 1, Some 2], notes_ok = True\<rparr>"

definition plain_template :: pptx where
  "plain_template =
     \<lparr>template_slides = [[\<lparr>shape_type = 13, image_blob = Some [0x89, 0x50]\<rparr>,
                          \<lparr>shape_type = 17, image_blob = None\<rparr>,
                          \<lparr>shape_type = 13, image_blob = Some [0xFF, 0xD8]\<rparr>]],
      slide_layouts = [title_layout, content_layout],
      text_ok = is_str, picture_ok = (\<lambda>b. True), save_ok = True\<rparr>"

text \<open>The same template with the title layout only.\<close>

definition single_layout_template :: pptx where
  "single_layout_template = plain_template\<lparr>slide_layouts := [title_layout]\<rparr>"

definition five_slides :: "pv list" where
  "five_slides =
     map (\<lambda>t. slide_pv \<lparr>title = t, bullets = [str ''x''], slide_notes = []\<rparr>)
       [str ''one'', str ''two'', str ''three'', str ''four'', str ''five'']"

text \<open>An outline with a deck title and the five slides.\<close>

definition titled_five_slide_deck :: pv where
  "titled_five_slide_deck =
     PDict [(str ''title'', PStr (str ''Deck'')), (str ''slides'', PList five_slides)]"

text \<open>The template again, with \<open>add_picture\<close> raising for its second picture.\<close>

definition picky_template :: pptx where
  "picky_template = plain_template\<lparr>picture_ok := (\<lambda>b. b \<noteq> [0xFF, 0xD8])\<rparr>"

section \<open>Evaluating the definitions\<close>

lemmas string_defs =
  str_def isspace_def is_linebreak_def strip_def strip_chars_def splitlines_def split_blank_def
  lower_def endswith_def

lemmas heuristic_defs =
  heuristic_split_def heading_scan_def scan_line_def flush_slide_def is_heading_def
  heading_sub_def paragraph_slides_def section_slide_def is_bullet_sep_def Let_def

lemmas router_defs =
  structure_slides_def provider_attempt_def call_openai_def call_anthropic_def call_gemini_def
  brace_span_def slide_pv_def deck_pv_def

lemmas render_defs =
  build_presentation_def add_bulleted_slide_def slide_fields_def title_slide_def
  default_layout_idx_def collect_template_images_def py_index_def

lemmas example_defs =
  plain_template_def single_layout_template_def title_layout_def content_layout_def
  five_slides_def answering_def failing_world_def known_json_def titled_five_slide_deck_def
  picky_template_def

section \<open>The heuristic structurer on the inputs the specification names\<close>

text \<open>
  C3. The input \<^verbatim>\<open>"# A\nline1\n## B\nline2\nline3"\<close> gives exactly two slides, in this
  order: "A" with the bullet "line1", then "B" with the bullets "line2" and "line3";
  the deck title is empty and so are the notes.
\<close>

theorem heading_split_example:
  "heuristic_split
     (str ''# A'' @ [0x0A] @ str ''line1'' @ [0x0A] @ str ''## B'' @ [0x0A] @ str ''line2''
        @ [0x0A] @ str ''line3'') guidance
   = \<lparr>deck_title = [],
      slides = [\<lparr>title = str ''A'', bullets = [str ''line1''], slide_notes = []\<rparr>,
                \<lparr>title = str ''B'', bullets = [str ''line2'', str ''line3''], slide_notes = []\<rparr>]\<rparr>"
  by (simp add: heuristic_defs string_defs)

text \<open>
  C2, at the input \<^verbatim>\<open>"---"\<close>. The line is kept because \<open>ln.strip()\<close> is not empty,
  and the bullet made of it is \<^verbatim>\<open>ln.strip("-* ").strip()\<close>, which is: the one slide has
  one bullet, the empty string.
\<close>

theorem empty_bullet_from_rule_line:
  "heuristic_split (str ''---'') guidance
   = \<lparr>deck_title = [],
      slides = [\<lparr>title = str ''Slide'', bullets = [[]], slide_notes = []\<rparr>]\<rparr>"
  by (simp add: heuristic_defs string_defs)

text \<open>
  C4, at the input \<^verbatim>\<open>"para one\n\npara two"\<close>. The scan over the lines collects both
  lines and its last flush makes one slide titled "Slide" of them, so the list of slides
  is not empty and the paragraph branch is not entered: no "Section 1", no "Section 2".
\<close>

theorem paragraphs_collected_into_one_slide:
  "heuristic_split (str ''para one'' @ [0x0A, 0x0A] @ str ''para two'') guidance
   = \<lparr>deck_title = [],
      slides = [\<lparr>title = str ''Slide'', bullets = [str ''para one'', str ''para two''],
                 slide_notes = []\<rparr>]\<rparr>"
  by (simp add: heuristic_defs string_defs)

section \<open>The renderer: one slide, the loop, the notes\<close>

text \<open>
  What a returning call of \<open>add_bulleted_slide\<close> has done: one slide appended, made
  with the layout index given, the counter one higher whatever happened to the picture.
\<close>

lemma add_bulleted_slide_result:
  assumes "add_bulleted_slide prs out idx t bs n pool c = Inr (out', c')"
  shows "c' = c + 1 \<and>
         (\<exists>x. out' = out @ [x] \<and> r_layout x = idx
           \<and> r_image x = (if pool \<noteq> [] \<and> picture_ok prs (pool ! nat (c mod int (length pool)))
                          then Some (pool ! nat (c mod int (length pool))) else None)
           \<and> (\<not> truthy n \<longrightarrow> r_notes x = None))"
proof -
  from assms obtain lay where lay: "py_index (slide_layouts prs) idx = Inr lay"
    by (cases "py_index (slide_layouts prs) idx") (simp_all add: add_bulleted_slide_def)
  let ?bad = "find (\<lambda>t. t = Some 2) (placeholder_types lay) \<noteq> None \<and> \<not> list_all (text_ok prs) bs"
  have nb: "\<not> ?bad"
    using assms unfolding add_bulleted_slide_def lay Let_def by (cases ?bad) simp_all
  show ?thesis
    using assms nb unfolding add_bulleted_slide_def lay Let_def
    by auto
qed

lemma map_of_dict_set: "map_of (dict_set key v kvs) key = Some v"
  by (induction kvs) auto

lemma py_setitem_get: "py_setitem s key v = Inr s' \<Longrightarrow> py_get s' key dflt = Inr v"
  by (cases s) (auto simp: map_of_dict_set)

lemma clear_each_notes:
  "clear_each items = Inr items' \<Longrightarrow>
   \<forall>s \<in> set items'. py_get s (str ''notes'') (PStr []) = Inr (PStr [])"
proof (induction items arbitrary: items')
  case Nil
  then show ?case by simp
next
  case (Cons s ss)
  from Cons.prems obtain s' ss' where
    s': "py_setitem s (str ''notes'') (PStr []) = Inr s'"
    and ss': "clear_each ss = Inr ss'" and items': "items' = s' # ss'"
    by (auto split: sum.splits)
  show ?case
    using py_setitem_get [OF s'] Cons.IH [OF ss'] items' by simp
qed

lemma clear_each_strings:
  "clear_each (map (\<lambda>x. PStr (f x)) xs) = Inr items' \<Longrightarrow> xs = []"
  by (cases xs) (auto split: sum.splits)

lemma clear_notes_items:
  assumes "clear_notes deck = Inr deck'"
    and "py_get deck' (str ''slides'') (PList []) = Inr slides_v"
    and "py_iter slides_v = Inr items"
  shows "\<forall>s \<in> set items. py_get s (str ''notes'') (PStr []) = Inr (PStr [])"
proof -
  from assms(1) obtain kvs where deck: "deck = PDict kvs"
    by (cases deck) (simp_all add: clear_notes_def)
  from assms(1) deck obtain old walked cleared where
    old: "py_get deck (str ''slides'') (PList []) = Inr old"
    and walked: "py_iter old = Inr walked"
    and cleared: "clear_each walked = Inr cleared"
    and deck': "deck' = with_slides deck old cleared"
    by (auto simp: clear_notes_def split: sum.splits)
  show ?thesis
  proof (cases old)
    case (PList xs)
    show ?thesis
    proof (cases "map_of kvs (str ''slides'')")
      case None
      then have "deck' = deck" using deck' deck PList by simp
      with assms(2,3) deck None show ?thesis by auto
    next
      case (Some v)
      then have "deck' = PDict (dict_set (str ''slides'') (PList cleared) kvs)"
        using deck' deck PList by simp
      with assms(2) have "slides_v = PList cleared" by (simp add: map_of_dict_set)
      with assms(3) have "items = cleared" by simp
      moreover have "walked = xs" using walked PList by simp
      ultimately show ?thesis using clear_each_notes [OF cleared] by simp
    qed
  next
    case (PStr s)
    with walked cleared have "s = []" by (auto dest: clear_each_strings)
    moreover have "deck' = deck" using deck' deck PStr by simp
    ultimately show ?thesis using assms(2,3) old PStr by auto
  next
    case (PDict d)
    with walked cleared have "d = []" by (auto dest: clear_each_strings)
    moreover have "deck' = deck" using deck' deck PDict by simp
    ultimately show ?thesis using assms(2,3) old PDict by auto
  qed (use walked in simp_all)
qed

lemma slide_fields_notes:
  "slide_fields s = Inr (t, bs, n) \<Longrightarrow> py_get s (str ''notes'') (PStr []) = Inr n"
  by (auto simp: slide_fields_def split: sum.splits)

lemma add_slides_no_notes:
  assumes "add_slides prs idx pool items st = Inr st'"
    and "\<forall>s \<in> set items. py_get s (str ''notes'') (PStr []) = Inr (PStr [])"
    and "\<forall>x \<in> set (fst st). r_notes x = None"
  shows "\<forall>x \<in> set (fst st'). r_notes x = None"
  using assms
proof (induction items arbitrary: st)
  case Nil
  then show ?case by simp
next
  case (Cons s ss)
  from Cons.prems(1) obtain t bs n where sf: "slide_fields s = Inr (t, bs, n)"
    by (auto split: sum.splits)
  from Cons.prems(1) sf obtain out1 c1 where
    ab: "add_bulleted_slide prs (fst st) idx t bs n pool (snd st) = Inr (out1, c1)"
    and rest: "add_slides prs idx pool ss (out1, c1) = Inr st'"
    by (auto split: sum.splits)
  have "n = PStr []" using slide_fields_notes [OF sf] Cons.prems(2) by simp
  then have "\<not> truthy n" by simp
  with add_bulleted_slide_result [OF ab] obtain x where
    "out1 = fst st @ [x]" and "r_notes x = None" by blast
  then have "\<forall>x \<in> set (fst (out1, c1)). r_notes x = None"
    using Cons.prems(3) by auto
  moreover have "\<forall>s \<in> set ss. py_get s (str ''notes'') (PStr []) = Inr (PStr [])"
    using Cons.prems(2) by simp
  ultimately show ?case using Cons.IH [OF rest] by blast
qed

lemma title_slide_no_notes: "x \<in> set (title_slide prs v) \<Longrightarrow> r_notes x = None"
  unfolding title_slide_def
  by (cases "slide_layouts prs"; cases "truthy v") auto

lemma build_presentation_loop:
  assumes "build_presentation Presentation template_bytes deck prefer = Inr out"
  shows "\<exists>prs dt sv items n.
           Presentation template_bytes = Inr prs \<and>
           py_get deck (str ''title'') PNone = Inr dt \<and>
           py_get deck (str ''slides'') (PList []) = Inr sv \<and>
           py_iter sv = Inr items \<and>
           add_slides prs (default_layout_idx prs prefer) (collect_template_images prs) items
             (title_slide prs dt, 0) = Inr (out, n)"
  using assms
  by (auto simp: build_presentation_def split: sum.splits if_splits)

text \<open>
  C8. With speaker notes not requested (\<open>speaker_notes\<close> is \<open>None\<close> or \<open>False\<close>),
  whatever the deck's notes fields held and wherever the deck came from: the deck that a
  returning request handed to the renderer has the empty string as the notes of every
  entry of \<open>slides\<close>, and no slide of the presentation returned has had speaker
  notes written.
\<close>

theorem notes_suppressed:
  assumes "speaker_notes \<noteq> Some True"
    and "generate_pptx w Presentation filename template_bytes text guidance provider api_key
           speaker_notes = Inr out"
  shows "\<exists>rendered.
           build_presentation Presentation template_bytes rendered 1 = Inr out \<and>
           (\<forall>slides_v items.
              py_get rendered (str ''slides'') (PList []) = Inr slides_v \<and>
              py_iter slides_v = Inr items \<longrightarrow>
              (\<forall>s \<in> set items. py_get s (str ''notes'') (PStr []) = Inr (PStr []))) \<and>
           (\<forall>x \<in> set out. r_notes x = None)"
proof -
  from assms obtain deck deck' where
    cleared: "clear_notes deck = Inr deck'"
    and built: "build_presentation Presentation template_bytes deck' 1 = Inr out"
    by (auto simp: generate_pptx_def split: if_splits sum.splits)
  from build_presentation_loop [OF built] obtain prs dt sv items n where
    sv: "py_get deck' (str ''slides'') (PList []) = Inr sv"
    and items: "py_iter sv = Inr items"
    and loop: "add_slides prs (default_layout_idx prs 1) (collect_template_images prs) items
                 (title_slide prs dt, 0) = Inr (out, n)"
    by blast
  have "\<forall>x \<in> set (fst (title_slide prs dt, 0::int)). r_notes x = None"
    using title_slide_no_notes by fastforce
  from add_slides_no_notes [OF loop clear_notes_items [OF cleared sv items] this]
  have empty: "\<forall>x \<in> set out. r_notes x = None" by simp
  have forced: "\<forall>slides_v items.
              py_get deck' (str ''slides'') (PList []) = Inr slides_v \<and>
              py_iter slides_v = Inr items \<longrightarrow>
              (\<forall>s \<in> set items. py_get s (str ''notes'') (PStr []) = Inr (PStr []))"
    using clear_notes_items [OF cleared] by blast
  from built forced empty show ?thesis by blast
qed

theorem notes_suppressed_witness:
  \<open>Some False \<noteq> Some True \<and>
   generate_pptx (answering (str ''{"slides":[{"title":"T","bullets":["b"],"notes":"N"}]}''))
     (\<lambda>bytes. Inr plain_template) (str ''deck.PPTX'') [] (str ''# A'') None
     (Some (str ''gemini'')) (Some (str ''k'')) (Some False)
   = Inr [\<lparr>r_layout = 1, r_title = Some (PStr (str ''T'')), r_body = Some [PStr (str ''b'')],
           r_image = Some [0x89, 0x50], r_notes = None\<rparr>] \<and>
   map r_notes [\<lparr>r_layout = 1, r_title = Some (PStr (str ''T'')), r_body = Some [PStr (str ''b'')],
                 r_image = Some [0x89, 0x50], r_notes = None\<rparr>] = [None]\<close>
proof -
  have run: \<open>generate_pptx (answering (str ''{"slides":[{"title":"T","bullets":["b"],"notes":"N"}]}''))
     (\<lambda>bytes. Inr plain_template) (str ''deck.PPTX'') [] (str ''# A'') None
     (Some (str ''gemini'')) (Some (str ''k'')) (Some False)
   = Inr [\<lparr>r_layout = 1, r_title = Some (PStr (str ''T'')), r_body = Some [PStr (str ''b'')],
           r_image = Some [0x89, 0x50], r_notes = None\<rparr>]\<close>
    by (simp add: generate_pptx_def clear_notes_def router_defs render_defs example_defs
          string_defs Let_def)
  have off: "Some False \<noteq> Some True" by simp
  from notes_suppressed [OF off run] run show ?thesis by simp
qed

text \<open>
  The same request with notes asked for keeps the notes: the suppression is what empties
  them.
\<close>

lemma notes_kept_when_requested:
  \<open>generate_pptx (answering (str ''{"slides":[{"title":"T","bullets":["b"],"notes":"N"}]}''))
     (\<lambda>bytes. Inr plain_template) (str ''deck.PPTX'') [] (str ''# A'') None
     (Some (str ''gemini'')) (Some (str ''k'')) (Some True)
   = Inr [\<lparr>r_layout = 1, r_title = Some (PStr (str ''T'')), r_body = Some [PStr (str ''b'')],
           r_image = Some [0x89, 0x50], r_notes = Some (PStr (str ''N''))\<rparr>]\<close>
  by (simp add: generate_pptx_def clear_notes_def router_defs render_defs example_defs
        string_defs Let_def)

section \<open>The image pool\<close>

lemma add_slides_appends:
  assumes "add_slides prs idx pool items (out, c) = Inr (out', c')" and "0 \<le> c"
  shows "c' = c + int (length items) \<and>
         (\<exists>new. out' = out @ new \<and> length new = length items \<and>
            (\<forall>k < length items. r_image (new ! k) =
               (if pool \<noteq> [] \<and> picture_ok prs (pool ! ((nat c + k) mod length pool))
                then Some (pool ! ((nat c + k) mod length pool)) else None)))"
  using assms
proof (induction items arbitrary: out c)
  case Nil
  then show ?case by simp
next
  case (Cons s ss)
  from Cons.prems(1) obtain t bs n where sf: "slide_fields s = Inr (t, bs, n)"
    by (auto split: sum.splits)
  from Cons.prems(1) sf obtain out1 c1 where
    ab: "add_bulleted_slide prs out idx t bs n pool c = Inr (out1, c1)"
    and rest: "add_slides prs idx pool ss (out1, c1) = Inr (out', c')"
    by (auto split: sum.splits)
  from add_bulleted_slide_result [OF ab] obtain x where
    c1: "c1 = c + 1" and out1: "out1 = out @ [x]"
    and img: "r_image x = (if pool \<noteq> [] \<and> picture_ok prs (pool ! nat (c mod int (length pool)))
                          then Some (pool ! nat (c mod int (length pool))) else None)"
    by blast
  have c1_pos: "0 \<le> c1" using c1 Cons.prems(2) by simp
  from Cons.IH [OF rest c1_pos] obtain new where
    c': "c' = c1 + int (length ss)" and out': "out' = out1 @ new"
    and len: "length new = length ss"
    and imgs: "\<forall>k < length ss. r_image (new ! k) =
               (if pool \<noteq> [] \<and> picture_ok prs (pool ! ((nat c1 + k) mod length pool))
                then Some (pool ! ((nat c1 + k) mod length pool)) else None)"
    by blast
  have idx0: "nat (c mod int (length pool)) = nat c mod length pool"
    using Cons.prems(2) by (simp add: nat_mod_distrib)
  have nat_c1: "nat c1 = Suc (nat c)" using c1 Cons.prems(2) by simp
  have "\<forall>k < length (s # ss). r_image ((x # new) ! k) =
               (if pool \<noteq> [] \<and> picture_ok prs (pool ! ((nat c + k) mod length pool))
                then Some (pool ! ((nat c + k) mod length pool)) else None)"
  proof (intro allI impI)
    fix k assume k: "k < length (s # ss)"
    show "r_image ((x # new) ! k) =
               (if pool \<noteq> [] \<and> picture_ok prs (pool ! ((nat c + k) mod length pool))
                then Some (pool ! ((nat c + k) mod length pool)) else None)"
    proof (cases k)
      case 0
      then show ?thesis using img idx0 by simp
    next
      case (Suc j)
      then have "j < length ss" using k by simp
      then show ?thesis using imgs Suc nat_c1 by simp
    qed
  qed
  moreover have "out' = out @ (x # new)" using out' out1 by simp
  moreover have "length (x # new) = length (s # ss)" using len by simp
  moreover have "c' = c + int (length (s # ss))" using c' c1 by simp
  ultimately show ?case by blast
qed

lemma add_slides_layout:
  assumes "add_slides prs idx pool items (out, c) = Inr (out', c')"
  shows "\<exists>new. out' = out @ new \<and> list_all (\<lambda>x. r_layout x = idx) new"
  using assms
proof (induction items arbitrary: out c)
  case Nil
  then show ?case by simp
next
  case (Cons s ss)
  from Cons.prems obtain t bs n where sf: "slide_fields s = Inr (t, bs, n)"
    by (auto split: sum.splits)
  from Cons.prems sf obtain out1 c1 where
    ab: "add_bulleted_slide prs out idx t bs n pool c = Inr (out1, c1)"
    and rest: "add_slides prs idx pool ss (out1, c1) = Inr (out', c')"
    by (auto split: sum.splits)
  from add_bulleted_slide_result [OF ab] obtain x where
    out1: "out1 = out @ [x]" and lay: "r_layout x = idx" by blast
  from Cons.IH [OF rest] obtain new where
    "out' = out1 @ new" and "list_all (\<lambda>x. r_layout x = idx) new" by blast
  with out1 lay have "out' = out @ (x # new) \<and> list_all (\<lambda>x. r_layout x = idx) (x # new)"
    by simp
  then show ?case by blast
qed

text \<open>
  C7. For every call of \<open>build_presentation\<close> that returns: the loop over the
  outline's slides started with the counter at 0 and the slides appended so far (the
  title slide or none), and it ended with the counter at the number of content slides,
  one step per slide whether or not a picture was placed. The slides returned are the
  title slide, if any, and then one content slide per entry; the picture on the
  \<open>k\<close>-th content slide (counted from 0) is \<open>pool[k mod len(pool)]\<close> where the pool
  is not empty and \<open>add_picture\<close> returned, and none otherwise.
\<close>

theorem image_cycling:
  assumes "Presentation template_bytes = Inr prs"
    and "build_presentation Presentation template_bytes deck prefer = Inr out"
  shows "\<exists>deck_title_v slides_v items content.
           py_get deck (str ''title'') PNone = Inr deck_title_v \<and>
           py_get deck (str ''slides'') (PList []) = Inr slides_v \<and>
           py_iter slides_v = Inr items \<and>
           add_slides prs (default_layout_idx prs prefer) (collect_template_images prs) items
             (title_slide prs deck_title_v, 0) = Inr (out, int (length items)) \<and>
           out = title_slide prs deck_title_v @ content \<and>
           length content = length items \<and>
           (\<forall>k < length content. r_image (content ! k) =
              (if collect_template_images prs \<noteq> [] \<and>
                  picture_ok prs (collect_template_images prs
                                    ! (k mod length (collect_template_images prs)))
               then Some (collect_template_images prs
                            ! (k mod length (collect_template_images prs)))
               else None))"
proof -
  from build_presentation_loop [OF assms(2)] assms(1) obtain dt sv items n where
    dt: "py_get deck (str ''title'') PNone = Inr dt"
    and sv: "py_get deck (str ''slides'') (PList []) = Inr sv"
    and items: "py_iter sv = Inr items"
    and loop: "add_slides prs (default_layout_idx prs prefer) (collect_template_images prs) items
             (title_slide prs dt, 0) = Inr (out, n)"
    by auto
  from add_slides_appends [OF loop] obtain content where
    n: "n = int (length items)"
    and content: "out = title_slide prs dt @ content" and len: "length content = length items"
    and imgs: "\<forall>k < length items. r_image (content ! k) =
              (if collect_template_images prs \<noteq> [] \<and>
                  picture_ok prs (collect_template_images prs
                                    ! ((nat 0 + k) mod length (collect_template_images prs)))
               then Some (collect_template_images prs
                            ! ((nat 0 + k) mod length (collect_template_images prs)))
               else None)"
    by auto
  have picked: "\<forall>k < length content. r_image (content ! k) =
              (if collect_template_images prs \<noteq> [] \<and>
                  picture_ok prs (collect_template_images prs
                                    ! (k mod length (collect_template_images prs)))
               then Some (collect_template_images prs
                            ! (k mod length (collect_template_images prs)))
               else None)"
    using imgs len by (simp cong: if_cong)
  from dt sv items loop n content len picked show ?thesis by blast
qed

text \<open>
  A pool of two pictures and an outline of five slides under a deck title: after the
  title slide, which has no picture and does not move the counter, the pictures go
  0, 1, 0, 1, 0.
\<close>

theorem image_cycling_witness:
  "\<exists>out.
     build_presentation (\<lambda>bytes. Inr plain_template) [] titled_five_slide_deck 1 = Inr out \<and>
     collect_template_images plain_template = [[0x89, 0x50], [0xFF, 0xD8]] \<and>
     py_get titled_five_slide_deck (str ''slides'') (PList []) = Inr (PList five_slides) \<and>
     length five_slides = 5 \<and>
     length out = length (title_slide plain_template (PStr (str ''Deck''))) + length five_slides \<and>
     map r_image out = [None, Some [0x89, 0x50], Some [0xFF, 0xD8], Some [0x89, 0x50],
                        Some [0xFF, 0xD8], Some [0x89, 0x50]]"
proof -
  have pool: "collect_template_images plain_template = [[0x89, 0x50], [0xFF, 0xD8]]"
    by (simp add: collect_template_images_def example_defs)
  have slides_v: "py_get titled_five_slide_deck (str ''slides'') (PList []) = Inr (PList five_slides)"
    by (simp add: titled_five_slide_deck_def str_def)
  have five: "length five_slides = 5" by (simp add: five_slides_def)
  obtain out where
    run: "build_presentation (\<lambda>bytes. Inr plain_template) [] titled_five_slide_deck 1 = Inr out"
    and placed: "map r_image out = [None, Some [0x89, 0x50], Some [0xFF, 0xD8],
                   Some [0x89, 0x50], Some [0xFF, 0xD8], Some [0x89, 0x50]]"
    by (simp add: render_defs example_defs router_defs titled_five_slide_deck_def str_def Let_def)
  have parsed: "(\<lambda>bytes. Inr plain_template) ([]::blob) = (Inr plain_template :: exn + pptx)"
    by simp
  from image_cycling [OF parsed run] slides_v
  have counted:
    "length out = length (title_slide plain_template (PStr (str ''Deck''))) + length five_slides"
    by (auto simp: titled_five_slide_deck_def str_def)
  show ?thesis
    by (rule exI [of _ out]) (use run pool slides_v five counted placed in \<open>intro conjI\<close>)
qed

text \<open>
  Where \<open>add_picture\<close> raises for the second picture of the pool, the slides it was
  chosen for have none, and the slides after them get the first picture all the same:
  the counter went on.
\<close>

lemma counter_advances_without_picture:
  "\<exists>out.
     build_presentation (\<lambda>bytes. Inr picky_template) [] titled_five_slide_deck 1 = Inr out \<and>
     map r_image out = [None, Some [0x89, 0x50], None, Some [0x89, 0x50], None,
                        Some [0x89, 0x50]]"
  by (simp add: render_defs example_defs router_defs titled_five_slide_deck_def
        picky_template_def str_def Let_def)

section \<open>The layout of the content slides\<close>

text \<open>
  C6, at a template with one layout and an outline with one slide. The preferred index
  1 is not below the number of layouts, the index chosen instead is 1 again, and
  \<open>prs.slide_layouts[1]\<close>, outside every \<open>try\<close>, raises \<open>IndexError\<close>: the
  template parses and rendering fails all the same.
\<close>

theorem single_layout_template_fails:
  "default_layout_idx single_layout_template 1 = 1 \<and>
   build_presentation (\<lambda>bytes. Inr single_layout_template) template_bytes
     (deck_pv \<lparr>deck_title = [],
               slides = [\<lparr>title = str ''A'', bullets = [str ''x''], slide_notes = []\<rparr>]\<rparr>) 1
   = Inl IndexError"
  by (simp add: render_defs example_defs router_defs str_def Let_def)

text \<open>
  In general: the index chosen is the preferred one where it is below the number of
  layouts, and with at most one layout the index chosen for the default preference is
  out of range for every content slide.
\<close>

lemma fallback_index_out_of_range:
  assumes "length (slide_layouts prs) \<le> 1"
  shows "default_layout_idx prs 1 = 1"
    and "add_bulleted_slide prs out (default_layout_idx prs 1) title_v bullets_v notes_v pool c
           = Inl IndexError"
proof -
  show idx: "default_layout_idx prs 1 = 1" by (simp add: default_layout_idx_def)
  have "py_index (slide_layouts prs) 1 = Inl IndexError"
    using assms by (simp add: py_index_def)
  then show "add_bulleted_slide prs out (default_layout_idx prs 1) title_v bullets_v notes_v pool c
           = Inl IndexError"
    unfolding idx by (simp add: add_bulleted_slide_def)
qed

lemma preferred_index_in_range:
  "prefer < int (length (slide_layouts prs)) \<Longrightarrow> default_layout_idx prs prefer = prefer"
  by (simp add: default_layout_idx_def)

section \<open>The providers' parsers and the router\<close>

text \<open>
  C9, at the response text \<^verbatim>\<open>Here is the deck: {}\<close>, which is no JSON and holds the span
  \<^verbatim>\<open>{}\<close>. \<open>_call_openai\<close> parses the span and returns the empty dictionary;
  \<open>_call_anthropic\<close> and \<open>_call_gemini\<close> raise the decoding error without looking
  for a span.
\<close>

theorem span_search_in_openai_only:
  "call_openai (answering (str ''Here is the deck: {}'')) api_key text guidance = Inr (PDict []) \<and>
   call_anthropic (answering (str ''Here is the deck: {}'')) api_key text guidance
     = Inl JSONDecodeError \<and>
   call_gemini (answering (str ''Here is the deck: {}'')) api_key text guidance
     = Inl JSONDecodeError"
  by (simp add: router_defs example_defs str_def)

text \<open>In general the two fail with whatever the first parse raised.\<close>

lemma call_anthropic_no_second_parse:
  "exchange w (str ''anthropic'') api_key text guidance = Inr text_out \<Longrightarrow>
   json_loads w text_out = Inl e \<Longrightarrow> call_anthropic w api_key text guidance = Inl e"
  by (simp add: call_anthropic_def)

lemma call_gemini_no_second_parse:
  "exchange w (str ''gemini'') api_key text guidance = Inr text_out \<Longrightarrow>
   json_loads w text_out = Inl e \<Longrightarrow> call_gemini w api_key text guidance = Inl e"
  by (simp add: call_gemini_def)

lemma slide_pv_shaped: "slide_shaped (slide_pv s)"
  by (simp add: slide_pv_def str_def list_all_iff)

lemma deck_pv_shaped: "outline_shaped (deck_pv d)"
  by (simp add: deck_pv_def str_def list_all_iff slide_pv_shaped)

text \<open>
  C1, at a provider answer that is JSON and no outline: \<^verbatim>\<open>[]\<close> from the provider
  "openai". The router returns what was parsed, a list, where its docstring promises
  \<^verbatim>\<open>{"title": str, "slides": [...]}\<close>; and the request handler, which calls
  \<open>deck.get\<close> on it outside every \<open>try\<close>, ends in an \<open>AttributeError\<close> nobody
  catches.
\<close>

theorem router_returns_unchecked_json:
  "structure_slides (answering (str ''[]'')) (Some (str ''openai'')) (Some (str ''sk-1''))
     (str ''# A'') None = Inr (PList []) \<and>
   \<not> outline_shaped (PList []) \<and>
   generate_pptx (answering (str ''[]'')) (\<lambda>bytes. Inr plain_template) (str ''deck.pptx'') []
     (str ''# A'') None (Some (str ''openai'')) (Some (str ''sk-1'')) None
   = Inl (Uncaught AttributeError)"
  by (simp add: generate_pptx_def clear_notes_def router_defs example_defs string_defs)

text \<open>
  What does hold of the router. It never raises. Whenever the provider attempt raises,
  the result is exactly the heuristic structurer's on the same text and guidance, which
  has the outline shape. Whenever an attempt is made and returns a value, that value is
  the result, as it is.
\<close>

lemma router_never_fails:
  "(\<exists>v. structure_slides w provider api_key text guidance = Inr v) \<and>
   (\<forall>key e. api_key = Some key \<and>
        provider_attempt w (strip (lower (case provider of None \<Rightarrow> [] | Some p \<Rightarrow> p)))
          key text guidance = Inl e \<longrightarrow>
        structure_slides w provider api_key text guidance
          = Inr (deck_pv (heuristic_split text guidance))) \<and>
   (\<forall>key v. api_key = Some key \<and> key \<noteq> [] \<and>
        strip (lower (case provider of None \<Rightarrow> [] | Some p \<Rightarrow> p))
          \<in> set [str ''openai'', str ''anthropic'', str ''gemini''] \<and>
        provider_attempt w (strip (lower (case provider of None \<Rightarrow> [] | Some p \<Rightarrow> p)))
          key text guidance = Inr (Some v) \<longrightarrow>
        structure_slides w provider api_key text guidance = Inr v) \<and>
   (structure_slides w provider api_key text guidance
      = Inr (deck_pv (heuristic_split text guidance)) \<or>
    (\<exists>key v. api_key = Some key \<and>
        provider_attempt w (strip (lower (case provider of None \<Rightarrow> [] | Some p \<Rightarrow> p)))
          key text guidance = Inr (Some v) \<and>
        structure_slides w provider api_key text guidance = Inr v)) \<and>
   outline_shaped (deck_pv (heuristic_split text guidance))"
proof -
  let ?name = "strip (lower (case provider of None \<Rightarrow> [] | Some p \<Rightarrow> p))"
  let ?fallback = "Inr (deck_pv (heuristic_split text guidance)) :: exn + pv"
  let ?result = "structure_slides w provider api_key text guidance"
  have shape: "outline_shaped (deck_pv (heuristic_split text guidance))"
    by (rule deck_pv_shaped)
  show ?thesis
  proof (cases api_key)
    case None
    then have "?result = ?fallback" by (simp add: structure_slides_def)
    with None shape show ?thesis by auto
  next
    case (Some key)
    show ?thesis
    proof (cases "key \<noteq> [] \<and> ?name \<in> set [str ''openai'', str ''anthropic'', str ''gemini'']")
      case False
      then have "?result = ?fallback" using Some by (auto simp: structure_slides_def Let_def)
      with shape False Some show ?thesis by auto
    next
      case True
      then have res: "?result = (case provider_attempt w ?name key text guidance of
                             Inr (Some v) \<Rightarrow> Inr v | Inr None \<Rightarrow> ?fallback | Inl e \<Rightarrow> ?fallback)"
        using Some by (auto simp: structure_slides_def Let_def)
      show ?thesis
      proof (cases "provider_attempt w ?name key text guidance")
        case (Inl e)
        with res shape Some show ?thesis by auto
      next
        case (Inr r)
        with res shape Some show ?thesis by (cases r) auto
      qed
    qed
  qed
qed

lemma router_fallback_example:
  "provider_attempt failing_world (strip (lower (str '' Gemini''))) (str ''k'') (str ''# A'') None
     = Inl HTTPError \<and>
   structure_slides failing_world (Some (str '' Gemini'')) (Some (str ''k'')) (str ''# A'') None
     = Inr (deck_pv \<lparr>deck_title = [],
                     slides = [\<lparr>title = str ''A'', bullets = [], slide_notes = []\<rparr>]\<rparr>)"
  by (simp add: router_defs example_defs heuristic_defs string_defs)

section \<open>Heading lines without text\<close>












section \<open>The titles of the heuristic structurer's slides\<close>

lemma slide_word_nonempty: "str ''Slide'' \<noteq> []"
  by (simp add: str_def)

text \<open>What a flush appends, and what it leaves.\<close>

lemma flush_slide_cases:
  "(scan_slides (flush_slide st) = scan_slides st \<or>
    (\<exists>x. scan_slides (flush_slide st) = scan_slides st @ [x] \<and>
         (title x = str ''Slide'' \<or> (title x \<noteq> [] \<and> current_title st = Some (title x))))) \<and>
   current_title (flush_slide st) = None \<and> current_lines (flush_slide st) = []"
proof (cases "current_title st")
  case None
  then show ?thesis by (simp add: flush_slide_def Let_def)
next
  case (Some t)
  then show ?thesis by (cases "t = []") (simp_all add: flush_slide_def Let_def)
qed

lemma scan_line_invariant:
  assumes slides_ok: "\<And>s. s \<in> set (scan_slides st) \<Longrightarrow> P (title s)"
    and title_ok: "\<And>t. current_title st = Some t \<Longrightarrow> t \<noteq> [] \<Longrightarrow> P t"
    and slide_word: "P (str ''Slide'')"
    and heading_ok: "is_heading ln \<Longrightarrow> strip (heading_sub ln) \<noteq> [] \<Longrightarrow> P (strip (heading_sub ln))"
  shows "(\<forall>s \<in> set (scan_slides (scan_line st ln)). P (title s)) \<and>
         (\<forall>t. current_title (scan_line st ln) = Some t \<longrightarrow> t \<noteq> [] \<longrightarrow> P t)"
proof (cases "is_heading ln")
  case True
  from flush_slide_cases [of st] slides_ok title_ok slide_word
  have "\<forall>s \<in> set (scan_slides (flush_slide st)). P (title s)" by auto
  with True heading_ok show ?thesis by (simp add: scan_line_def)
next
  case False
  with slides_ok title_ok show ?thesis by (simp add: scan_line_def)
qed

lemma scan_lines_invariant:
  assumes "\<And>s. s \<in> set (scan_slides st) \<Longrightarrow> P (title s)"
    and "\<And>t. current_title st = Some t \<Longrightarrow> t \<noteq> [] \<Longrightarrow> P t"
    and "P (str ''Slide'')"
    and "\<And>ln. ln \<in> set lns \<Longrightarrow> is_heading ln \<Longrightarrow> strip (heading_sub ln) \<noteq> [] \<Longrightarrow> P (strip (heading_sub ln))"
  shows "(\<forall>s \<in> set (scan_slides (foldl scan_line st lns)). P (title s)) \<and>
         (\<forall>t. current_title (foldl scan_line st lns) = Some t \<longrightarrow> t \<noteq> [] \<longrightarrow> P t)"
  using assms
proof (induction lns arbitrary: st)
  case Nil
  then show ?case by simp
next
  case (Cons ln lns)
  have step: "(\<forall>s \<in> set (scan_slides (scan_line st ln)). P (title s)) \<and>
         (\<forall>t. current_title (scan_line st ln) = Some t \<longrightarrow> t \<noteq> [] \<longrightarrow> P t)"
    by (rule scan_line_invariant) (use Cons.prems in auto)
  have "(\<forall>s \<in> set (scan_slides (foldl scan_line (scan_line st ln) lns)). P (title s)) \<and>
         (\<forall>t. current_title (foldl scan_line (scan_line st ln) lns) = Some t \<longrightarrow> t \<noteq> [] \<longrightarrow> P t)"
    by (rule Cons.IH) (use step Cons.prems in auto)
  then show ?case by simp
qed

lemma heading_scan_titles:
  assumes "P (str ''Slide'')"
    and "\<And>ln. ln \<in> set (splitlines (strip text)) \<Longrightarrow> is_heading ln \<Longrightarrow>
           strip (heading_sub ln) \<noteq> [] \<Longrightarrow> P (strip (heading_sub ln))"
    and "s \<in> set (heading_scan text)"
  shows "P (title s)"
proof -
  let ?st = "foldl scan_line \<lparr>scan_slides = [], current_title = None, current_lines = []\<rparr>
               (splitlines (strip text))"
  have inv: "(\<forall>s \<in> set (scan_slides ?st). P (title s)) \<and>
             (\<forall>t. current_title ?st = Some t \<longrightarrow> t \<noteq> [] \<longrightarrow> P t)"
    by (rule scan_lines_invariant) (use assms(1,2) in auto)
  from flush_slide_cases [of ?st] inv assms(1)
  have "\<forall>s \<in> set (scan_slides (flush_slide ?st)). P (title s)" by auto
  with assms(3) show ?thesis by (simp add: heading_scan_def)
qed

lemma paragraph_slides_titles:
  "s \<in> set (paragraph_slides text) \<Longrightarrow> \<exists>n. title s = str ''Section '' @ str_of_nat n"
  by (auto simp: paragraph_slides_def section_slide_def Let_def)

text \<open>
  No title is empty, and every title is the literal "Slide", the text of a heading line
  of the input, or "Section N" for a number N.
\<close>

lemma heuristic_title_sources:
  "\<forall>s \<in> set (slides (heuristic_split text guidance)).
     title s \<noteq> [] \<and>
     (title s = str ''Slide'' \<or>
      (\<exists>ln \<in> set (splitlines (strip text)). is_heading ln \<and> title s = strip (heading_sub ln)) \<or>
      (\<exists>n. title s = str ''Section '' @ str_of_nat n))"
proof
  fix s assume "s \<in> set (slides (heuristic_split text guidance))"
  then have "s \<in> set (heading_scan text) \<or> s \<in> set (paragraph_slides text)"
    by (auto simp: heuristic_split_def Let_def dest: in_set_takeD split: if_splits)
  then show "title s \<noteq> [] \<and>
     (title s = str ''Slide'' \<or>
      (\<exists>ln \<in> set (splitlines (strip text)). is_heading ln \<and> title s = strip (heading_sub ln)) \<or>
      (\<exists>n. title s = str ''Section '' @ str_of_nat n))"
  proof
    assume scanned: "s \<in> set (heading_scan text)"
    let ?P = "\<lambda>t. t \<noteq> [] \<and> (t = str ''Slide'' \<or>
                (\<exists>ln \<in> set (splitlines (strip text)). is_heading ln \<and> t = strip (heading_sub ln)))"
    have "?P (title s)"
      by (rule heading_scan_titles [where P = ?P, OF _ _ scanned])
         (use slide_word_nonempty in auto)
    then show ?thesis by blast
  next
    assume "s \<in> set (paragraph_slides text)"
    then obtain n where "title s = str ''Section '' @ str_of_nat n"
      using paragraph_slides_titles by blast
    moreover have "str ''Section '' \<noteq> []" by (simp add: str_def)
    ultimately show ?thesis by auto
  qed
qed

section \<open>The paragraph branch\<close>
















lemma heuristic_slide_count: "length (slides (heuristic_split text guidance)) \<le> 20"
  by (simp add: heuristic_split_def Let_def)

section \<open>The title of a slide, by where the slide comes from\<close>









end
